theory Spec2Isabelle
  imports Main "HOL-Library.Char_ord" "HOL-Library.AList"
begin

section \<open>Strings and the library functions the chat code calls\<close>

text \<open>
  A Go string is a sequence of bytes and \<open>len\<close> counts bytes, so a string is a
  \<open>char list\<close> here and \<open>length\<close> is Go's \<open>len\<close>. The functions of package
  \<open>strings\<close> are modelled on their behaviour for ASCII input: the six ASCII white
  space bytes are trimmed and the letters A to Z are lowered; bytes from 0x80 on are left
  alone (Go decodes them as UTF-8 and also knows the Unicode spaces and letters).
\<close>

definition CRLF :: string where
  "CRLF = [CHR 0x0D, CHR 0x0A]"

definition LF :: string where
  "LF = [CHR 0x0A]"

definition isSpaceByte :: "char \<Rightarrow> bool" where
  "isSpaceByte c \<longleftrightarrow>
     c = CHR 0x09 \<or> c = CHR 0x0A \<or> c = CHR 0x0B \<or> c = CHR 0x0C \<or> c = CHR 0x0D \<or> c = CHR '' ''"

definition TrimSpace :: "string \<Rightarrow> string" where
  "TrimSpace s = rev (dropWhile isSpaceByte (rev (dropWhile isSpaceByte s)))"

definition lowerByte :: "char \<Rightarrow> char" where
  "lowerByte c =
     (if CHR ''A'' \<le> c \<and> c \<le> CHR ''Z'' then char_of (of_char c + (32::nat)) else c)"

definition ToLower :: "string \<Rightarrow> string" where
  "ToLower s = map lowerByte s"

definition HasPrefix :: "string \<Rightarrow> string \<Rightarrow> bool" where
  "HasPrefix s pre \<longleftrightarrow> take (length pre) s = pre"

text \<open>\<open>strings.SplitN(s, " ", 2)\<close>: one part when there is no space, otherwise the text
  before the first space and the text after it.\<close>

definition SplitN2 :: "string \<Rightarrow> string list" where
  "SplitN2 s =
     (if CHR '' '' \<in> set s
      then [takeWhile (\<lambda>c. c \<noteq> CHR '' '') s, tl (dropWhile (\<lambda>c. c \<noteq> CHR '' '') s)]
      else [s])"

text \<open>\<open>%d\<close> of \<open>fmt.Sprintf\<close>.\<close>

fun Utoa :: "nat \<Rightarrow> string" where
  "Utoa n = (if n < 10 then [char_of (48 + n)] else Utoa (n div 10) @ [char_of (48 + n mod 10)])"

definition Itoa :: "int \<Rightarrow> string" where
  "Itoa i = (if i < 0 then CHR ''-'' # Utoa (nat (- i)) else Utoa (nat i))"

section \<open>Package ui: message formatting\<close>

text \<open>
  The styles are values of the lipgloss library and \<open>Render\<close> is its method; the clock
  format \<open>15:04:05\<close> and the \<open>%.1f\<close> of a duration in seconds belong to the Go
  library too. They are parameters of the model, collected in one record, together with
  the banner literal of \<open>sendWelcomeMessage\<close> (box-drawing characters). Time is the
  number of nanoseconds on the clock that \<open>time.Now\<close> reads, an unbounded integer.
\<close>

type_synonym time = int

datatype style =
  BaseStyle | HeaderStyle | SystemStyle | UserStyle | SelfStyle | ActionStyle | BoxStyle
  | InputStyle | AccentStyle

record ext =
  Render :: "style \<Rightarrow> string \<Rightarrow> string"
  FormatClock :: "time \<Rightarrow> string"
  FormatSeconds :: "int \<Rightarrow> string"
  banner :: string

definition FormatSystemMessage :: "ext \<Rightarrow> string \<Rightarrow> string" where
  "FormatSystemMessage E message = Render E SystemStyle (''[System] '' @ message)"

definition FormatUserMessage :: "ext \<Rightarrow> string \<Rightarrow> string \<Rightarrow> string \<Rightarrow> string" where
  "FormatUserMessage E username message timestamp =
     Render E UserStyle (''['' @ timestamp @ ''] '' @ username @ '': '') @ message"

definition FormatSelfMessage :: "ext \<Rightarrow> string \<Rightarrow> string \<Rightarrow> string" where
  "FormatSelfMessage E message timestamp =
     Render E SelfStyle (''['' @ timestamp @ ''] You: '') @ message"

definition FormatActionMessage :: "ext \<Rightarrow> string \<Rightarrow> string \<Rightarrow> string" where
  "FormatActionMessage E username action =
     Render E ActionStyle (''* '' @ username @ '' '' @ action)"

definition FormatTitle :: "ext \<Rightarrow> string \<Rightarrow> string" where
  "FormatTitle E title = Render E HeaderStyle (''=== '' @ title @ '' ==='')"

definition FormatHelp :: "ext \<Rightarrow> string" where
  "FormatHelp E =
     Render E BoxStyle
       (Render E HeaderStyle ''Available Commands:'' @ LF @
        ''/who - Show all users in the room'' @ LF @
        ''/me <action> - Perform an action'' @ LF @
        ''/help - Show this help message'' @ LF @
        ''/quit - Leave the chat'')"

definition FormatUserList :: "ext \<Rightarrow> string \<Rightarrow> string list \<Rightarrow> int \<Rightarrow> string" where
  "FormatUserList E roomName users maxUsers =
     Render E BoxStyle
       (foldl (\<lambda>content user. content @ ''- '' @ Render E UserStyle user @ LF)
          (Render E HeaderStyle
             (''Users in '' @ roomName @ '' ('' @
              Render E AccentStyle (Itoa (int (length users)) @ ''/'' @ Itoa maxUsers) @
              ''):'') @ LF)
          users)"

definition FormatWelcomeMessage :: "ext \<Rightarrow> string \<Rightarrow> string \<Rightarrow> string" where
  "FormatWelcomeMessage E roomName nickname =
     Render E HeaderStyle (''Welcome to '' @ roomName @ '', '' @ nickname @ ''!'') @ LF @ LF @
     ''Type a message and press Enter to send. Use /help to see available commands.''"

section \<open>Package chat: the data\<close>

record Message =
  From :: string
  Content :: string
  Timestamp :: time
  IsSystem :: bool
  IsAction :: bool

text \<open>
  A \<open>Client\<close> is shared by pointer between its session and the room's map, so the clients
  live in a store indexed by their address. Of the connection the model keeps whether it
  was closed, and of the buffered writer the strings passed to \<open>WriteString\<close>, in order.
\<close>

record Client =
  Nickname :: string
  conn_closed :: bool
  writer :: "string list"
  fullRoomRejection :: bool
  messageTimestamps :: "time list"

text \<open>
  The map \<open>clients\<close> is an association list with one entry per key: \<open>length\<close> is
  Go's \<open>len\<close> of the map. Of the mutex \<open>mu\<close> the model keeps one fact,
  \<open>deadlocked\<close>: the control loop holds the write lock and waits, in a call of
  \<open>broadcastMessage\<close>, for the read lock of the same mutex. A \<open>sync.RWMutex\<close> is not
  reentrant, so that wait never ends and the lock is never released.
\<close>

record Room =
  Name :: string
  MaxUsers :: int
  clients :: "(string \<times> nat) list"
  deadlocked :: bool

record world =
  room :: Room
  heap :: "nat \<Rightarrow> Client"

definition MaxMessageLength :: nat where
  "MaxMessageLength = 1000"

definition MessageRateLimit :: nat where
  "MessageRateLimit = 5"

definition RateLimitWindow :: int where
  "RateLimitWindow = 5 * 1000000000"

datatype ioerr = EOF | IOError string

datatype error =
  WriteError
  | FailedToWrite string error
  | FailedToReadNickname ioerr
  | NicknameRequestFailed error
  | RoomIsFull
  | WelcomeMessageFailed error
  | MessageTooLong
  | RateLimitExceeded int
  | InvalidMeUsage
  | UnknownCommand string
  | ErrorClosingConnection

section \<open>Client: writing to the connection\<close>

definition update_client :: "nat \<Rightarrow> (Client \<Rightarrow> Client) \<Rightarrow> world \<Rightarrow> world" where
  "update_client p f W = W\<lparr>heap := (heap W)(p := f (heap W p))\<rparr>"

text \<open>
  \<open>sendMessage\<close> formats by the kind of the message (the local \<open>formatted\<close>, which
  depends on the receiver's nickname) and writes in a goroutine of its own, where an error is
  only logged. The model performs the write at once.
\<close>

definition formatted :: "ext \<Rightarrow> string \<Rightarrow> Message \<Rightarrow> string" where
  "formatted E nickname msg =
     (let timeStr = FormatClock E (Timestamp msg)
      in if IsSystem msg then FormatSystemMessage E (Content msg) @ CRLF
         else if IsAction msg then FormatActionMessage E (From msg) (Content msg) @ CRLF
         else if From msg = nickname then FormatSelfMessage E (Content msg) timeStr @ CRLF
         else FormatUserMessage E (From msg) (Content msg) timeStr @ CRLF)"

definition sendMessage :: "ext \<Rightarrow> nat \<Rightarrow> Message \<Rightarrow> world \<Rightarrow> world" where
  "sendMessage E p msg W =
     update_client p (\<lambda>c. c\<lparr>writer := writer c @ [formatted E (Nickname c) msg]\<rparr>) W"

definition sendSystemMessage :: "ext \<Rightarrow> time \<Rightarrow> nat \<Rightarrow> string \<Rightarrow> world \<Rightarrow> world" where
  "sendSystemMessage E now p message W =
     sendMessage E p
       \<lparr>From = ''System'', Content = message, Timestamp = now, IsSystem = True, IsAction = False\<rparr> W"

text \<open>The client's \<open>write\<close> (the bare name is a keyword of the prover) reports an
  error when writing or flushing fails, which the model takes to happen exactly on a closed
  connection.\<close>

definition write_client :: "nat \<Rightarrow> string \<Rightarrow> world \<Rightarrow> error option \<times> world" where
  "write_client p message W =
     (let W' = update_client p (\<lambda>c. c\<lparr>writer := writer c @ [message]\<rparr>) W
      in if conn_closed (heap W p) then (Some WriteError, W') else (None, W'))"

section \<open>Room\<close>

definition NewRoom :: "string \<Rightarrow> int \<Rightarrow> Room" where
  "NewRoom name maxUsers =
     \<lparr>Name = name, MaxUsers = maxUsers, clients = [], deadlocked = False\<rparr>"

definition broadcastMessage :: "ext \<Rightarrow> Message \<Rightarrow> world \<Rightarrow> world" where
  "broadcastMessage E msg W = fold (\<lambda>(nickname, client). sendMessage E client msg) (clients (room W)) W"

text \<open>
  \<open>broadcastMessage\<close> as \<open>addClient\<close> and \<open>removeClient\<close> call it: they hold the write
  lock of \<open>mu\<close> (\<open>Lock\<close>, with the \<open>Unlock\<close> deferred) and \<open>broadcastMessage\<close> starts
  with \<open>RLock\<close> on the same mutex. The call blocks there for ever: no client is sent
  anything, the caller never returns and the write lock stays held.
\<close>

definition broadcastMessage_holding_lock :: "Message \<Rightarrow> world \<Rightarrow> world" where
  "broadcastMessage_holding_lock msg W = W\<lparr>room := (room W)\<lparr>deadlocked := True\<rparr>\<rparr>"

text \<open>
  \<open>addClient\<close> of the draft with the shutdown context, the one that sets
  \<open>fullRoomRejection\<close>. On a full room it returns, the lock released. Otherwise it adds
  the client and calls \<open>broadcastMessage\<close> under its lock: the result is the state in
  which the control loop is stuck.
\<close>

definition addClient :: "ext \<Rightarrow> time \<Rightarrow> nat \<Rightarrow> world \<Rightarrow> world" where
  "addClient E now c W =
     (if int (length (clients (room W))) \<ge> MaxUsers (room W)
      then update_client c (\<lambda>cl. cl\<lparr>fullRoomRejection := True\<rparr>)
             (sendSystemMessage E now c ''Sorry, the room is full. Try again later.'' W)
      else broadcastMessage_holding_lock
             \<lparr>From = ''System'', Content = Nickname (heap W c) @ '' has joined the room'',
              Timestamp = now, IsSystem = True, IsAction = False\<rparr>
             (W\<lparr>room := (room W)\<lparr>clients := AList.update (Nickname (heap W c)) c (clients (room W))\<rparr>\<rparr>))"

text \<open>\<open>addClient\<close> of the earlier draft, which closes the connection itself.\<close>

definition addClient_draft :: "ext \<Rightarrow> time \<Rightarrow> nat \<Rightarrow> world \<Rightarrow> world" where
  "addClient_draft E now c W =
     (if int (length (clients (room W))) \<ge> MaxUsers (room W)
      then update_client c (\<lambda>cl. cl\<lparr>conn_closed := True\<rparr>)
             (sendSystemMessage E now c ''Sorry, the room is full. Try again later.'' W)
      else broadcastMessage_holding_lock
             \<lparr>From = ''System'', Content = Nickname (heap W c) @ '' has joined the room'',
              Timestamp = now, IsSystem = True, IsAction = False\<rparr>
             (W\<lparr>room := (room W)\<lparr>clients := AList.update (Nickname (heap W c)) c (clients (room W))\<rparr>\<rparr>))"

text \<open>\<open>removeClient\<close> returns when the nickname is not in the map. When it is, the entry
  is deleted and the call of \<open>broadcastMessage\<close> under the lock leaves the loop stuck.\<close>

definition removeClient :: "ext \<Rightarrow> time \<Rightarrow> nat \<Rightarrow> world \<Rightarrow> world" where
  "removeClient E now c W =
     (if map_of (clients (room W)) (Nickname (heap W c)) \<noteq> None
      then broadcastMessage_holding_lock
             \<lparr>From = ''System'', Content = Nickname (heap W c) @ '' has left the room'',
              Timestamp = now, IsSystem = True, IsAction = False\<rparr>
             (W\<lparr>room := (room W)\<lparr>clients := AList.delete (Nickname (heap W c)) (clients (room W))\<rparr>\<rparr>)
      else W)"

definition GetUserList :: "Room \<Rightarrow> string list" where
  "GetUserList r = map fst (clients r)"

definition IsNicknameAvailable :: "Room \<Rightarrow> string \<Rightarrow> bool" where
  "IsNicknameAvailable r nickname \<longleftrightarrow> map_of (clients r) nickname = None"

text \<open>
  The control loop \<open>run\<close> receives one request at a time from the channels \<open>join\<close>,
  \<open>leave\<close> and \<open>broadcast\<close> until the context is done: the list holds the requests sent
  to it before that, each with the clock reading of its handling. A loop that is stuck in a
  handler receives nothing more. \<open>broadcastMessage\<close> called from the loop itself takes
  its read lock with no lock held.
\<close>

datatype request = Join nat | Leave nat | Broadcast Message

fun run :: "ext \<Rightarrow> (time \<times> request) list \<Rightarrow> world \<Rightarrow> world" where
  "run E [] W = W"
| "run E ((now, Join c) # rs) W =
     (if deadlocked (room W) then W else run E rs (addClient E now c W))"
| "run E ((now, Leave c) # rs) W =
     (if deadlocked (room W) then W else run E rs (removeClient E now c W))"
| "run E ((now, Broadcast msg) # rs) W =
     (if deadlocked (room W) then W else run E rs (broadcastMessage E msg W))"

section \<open>Client: validation, rate limit and commands\<close>

text \<open>Go's \<open>err.Error()\<close>, as \<open>Handle\<close> prints it with \<open>%v\<close>. The text of the
  network library's error on a closed connection is given in its usual wording.\<close>

definition ioerr_text :: "ioerr \<Rightarrow> string" where
  "ioerr_text e = (case e of EOF \<Rightarrow> ''EOF'' | IOError s \<Rightarrow> s)"

fun ErrorString :: "ext \<Rightarrow> error \<Rightarrow> string" where
  "ErrorString E WriteError = ''error flushing message: use of closed network connection''"
| "ErrorString E (FailedToWrite what err) = ''failed to write '' @ what @ '': '' @ ErrorString E err"
| "ErrorString E (FailedToReadNickname e) = ''failed to read nickname: '' @ ioerr_text e"
| "ErrorString E (NicknameRequestFailed err) = ''nickname request failed: '' @ ErrorString E err"
| "ErrorString E RoomIsFull = ''room is full''"
| "ErrorString E (WelcomeMessageFailed err) = ''welcome message failed: '' @ ErrorString E err"
| "ErrorString E MessageTooLong =
     ''message too long (max '' @ Itoa (int MaxMessageLength) @ '' characters)''"
| "ErrorString E (RateLimitExceeded waitTime) =
     ''rate limit exceeded (max '' @ Itoa (int MessageRateLimit) @ '' messages per 5s). Try again in ''
     @ FormatSeconds E waitTime @ '' seconds''"
| "ErrorString E InvalidMeUsage = ''invalid /me command usage''"
| "ErrorString E (UnknownCommand command) = ''unknown command: '' @ command"
| "ErrorString E ErrorClosingConnection =
     ''error closing connection: use of closed network connection''"

definition validateMessageLength :: "string \<Rightarrow> error option" where
  "validateMessageLength message =
     (if length message > MaxMessageLength then Some MessageTooLong else None)"

text \<open>\<open>checkRateLimit\<close>: the clock reading \<open>now\<close> is appended, the timestamps after the
  cutoff are kept, and more than \<open>MessageRateLimit\<close> of them is an error that carries the
  waiting time in nanoseconds.\<close>

definition checkRateLimit :: "time \<Rightarrow> nat \<Rightarrow> world \<Rightarrow> error option \<times> world" where
  "checkRateLimit now p W =
     (let appended = messageTimestamps (heap W p) @ [now];
          cutoff = now - RateLimitWindow;
          newTimestamps = filter (\<lambda>ts. ts > cutoff) appended;
          W' = update_client p (\<lambda>c. c\<lparr>messageTimestamps := newTimestamps\<rparr>) W
      in if length newTimestamps > MessageRateLimit
         then (Some (RateLimitExceeded (newTimestamps ! 0 + RateLimitWindow - now)), W')
         else (None, W'))"

definition showUserList :: "ext \<Rightarrow> nat \<Rightarrow> world \<Rightarrow> error option \<times> world" where
  "showUserList E p W =
     write_client p
       (FormatUserList E (Name (room W)) (GetUserList (room W)) (MaxUsers (room W)) @ CRLF) W"

definition showHelp :: "ext \<Rightarrow> nat \<Rightarrow> world \<Rightarrow> error option \<times> world" where
  "showHelp E p W = write_client p (FormatHelp E @ CRLF) W"

text \<open>
  A send on one of the room's channels is received by the control loop, which then handles
  the request while the sender goes on: in the model \<open>room.Broadcast\<close> and
  \<open>room.Leave\<close> are the loop's \<open>broadcastMessage\<close> and \<open>removeClient\<close>, applied at the
  point of the send. The functions of a session are modelled for a room whose loop is
  receiving. Closing a connection that is closed already is the error of \<open>conn.Close\<close>.
\<close>

definition handleCommand :: "ext \<Rightarrow> time \<Rightarrow> nat \<Rightarrow> string \<Rightarrow> world \<Rightarrow> error option \<times> world" where
  "handleCommand E now p cmd W =
     (let parts = SplitN2 cmd;
          command = ToLower (parts ! 0)
      in if command = ''/who'' then showUserList E p W
         else if command = ''/me'' then
           (if length parts < 2 \<or> TrimSpace (parts ! 1) = []
            then (Some InvalidMeUsage, sendSystemMessage E now p ''Usage: /me <action>'' W)
            else (None,
                  broadcastMessage E
                    \<lparr>From = Nickname (heap W p), Content = parts ! 1, Timestamp = now,
                     IsSystem = False, IsAction = True\<rparr> W))
         else if command = ''/help'' then showHelp E p W
         else if command = ''/quit'' then
           (let W1 = sendSystemMessage E now p ''Goodbye!'' W
            in if conn_closed (heap W1 p) then (Some ErrorClosingConnection, W1)
               else (None, update_client p (\<lambda>c. c\<lparr>conn_closed := True\<rparr>) W1))
         else (Some (UnknownCommand command),
               sendSystemMessage E now p (''Unknown command: '' @ command) W))"

text \<open>
  The body of \<open>Handle\<close>'s loop for a line that was read (\<open>case result := <-readCh\<close>).
  Every path through it ends in the next iteration of the loop.
\<close>

definition handleLine :: "ext \<Rightarrow> time \<Rightarrow> nat \<Rightarrow> string \<Rightarrow> world \<Rightarrow> world" where
  "handleLine E now p line W =
     (let message = TrimSpace line
      in if message = [] then W
         else case validateMessageLength message of
           Some err \<Rightarrow> sendSystemMessage E now p (''Error: '' @ ErrorString E err) W
         | None \<Rightarrow>
            (case (if \<not> HasPrefix message ''/quit'' then checkRateLimit now p W else (None, W)) of
               (Some err, W1) \<Rightarrow> sendSystemMessage E now p (''Error: '' @ ErrorString E err) W1
             | (None, W1) \<Rightarrow>
                 if HasPrefix message ''/'' then
                   (case handleCommand E now p message W1 of
                      (Some err, W2) \<Rightarrow>
                        sendSystemMessage E now p (''Error: '' @ ErrorString E err) W2
                    | (None, W2) \<Rightarrow> W2)
                 else broadcastMessage E
                        \<lparr>From = Nickname (heap W1 p), Content = message, Timestamp = now,
                         IsSystem = False, IsAction = False\<rparr> W1))"

text \<open>
  What the reader of a connection gives: a line, or an error. \<open>Handle\<close> also sees the
  cancellation of its context. The list given to a loop holds what it receives, in order,
  each with the clock reading of its handling; at the end of the list the loop is still
  waiting for input and has not returned. \<open>Waiting\<close> is the outcome of a call that has
  not returned: it waits for input, or for a send that nobody receives.
\<close>

datatype read = Line string | ReadFailed ioerr

datatype input = Read read | CtxDone

datatype 'a outcome = Returned 'a | Waiting

fun Handle :: "ext \<Rightarrow> nat \<Rightarrow> (time \<times> input) list \<Rightarrow> world \<Rightarrow> unit outcome \<times> world" where
  "Handle E p [] W = (Waiting, W)"
| "Handle E p ((now, CtxDone) # rest) W = (Returned (), removeClient E now p W)"
| "Handle E p ((now, Read (ReadFailed EOF)) # rest) W = (Returned (), removeClient E now p W)"
| "Handle E p ((now, Read (ReadFailed (IOError e))) # rest) W =
     (Returned (),
      removeClient E now p (sendSystemMessage E now p (''Error reading message: '' @ e) W))"
| "Handle E p ((now, Read (Line l)) # rest) W = Handle E p rest (handleLine E now p l W)"

section \<open>Client: construction\<close>

definition quote :: string where
  "quote = [CHR 0x27]"

text \<open>A rejected candidate: the notice is written, and the loop continues unless the
  write fails.\<close>

definition reject_nickname ::
  "nat \<Rightarrow> string \<Rightarrow> world \<Rightarrow> (world \<Rightarrow> error option outcome \<times> read list \<times> world) \<Rightarrow> read list
     \<Rightarrow> error option outcome \<times> read list \<times> world" where
  "reject_nickname p errMsg W continue rest =
     (case write_client p errMsg W of
        (Some err, W') \<Rightarrow> (Returned (Some (FailedToWrite ''error message'' err)), rest, W')
      | (None, W') \<Rightarrow> continue W')"

text \<open>The loop of \<open>requestNickname\<close>: prompt, read, trim, validate.\<close>

fun nicknameLoop ::
  "ext \<Rightarrow> nat \<Rightarrow> read list \<Rightarrow> world \<Rightarrow> error option outcome \<times> read list \<times> world" where
  "nicknameLoop E p [] W =
     (case write_client p (Render E InputStyle ''Please enter your nickname: '') W of
        (Some err, W1) \<Rightarrow> (Returned (Some (FailedToWrite ''nickname prompt'' err)), [], W1)
      | (None, W1) \<Rightarrow> (Waiting, [], W1))"
| "nicknameLoop E p (ReadFailed e # rest) W =
     (case write_client p (Render E InputStyle ''Please enter your nickname: '') W of
        (Some err, W1) \<Rightarrow>
          (Returned (Some (FailedToWrite ''nickname prompt'' err)), ReadFailed e # rest, W1)
      | (None, W1) \<Rightarrow> (Returned (Some (FailedToReadNickname e)), rest, W1))"
| "nicknameLoop E p (Line l # rest) W =
     (case write_client p (Render E InputStyle ''Please enter your nickname: '') W of
        (Some err, W1) \<Rightarrow>
          (Returned (Some (FailedToWrite ''nickname prompt'' err)), Line l # rest, W1)
      | (None, W1) \<Rightarrow>
          (let nickname = TrimSpace l
           in if nickname = [] then
                reject_nickname p (''Nickname cannot be empty. Please try again.'' @ CRLF) W1
                  (nicknameLoop E p rest) rest
              else if ToLower nickname = ''system'' then
                reject_nickname p
                  (''Nickname '' @ quote @ ''System'' @ quote @
                   '' is reserved. Please choose another nickname.'' @ CRLF) W1
                  (nicknameLoop E p rest) rest
              else if \<not> IsNicknameAvailable (room W1) nickname then
                reject_nickname p
                  (''Nickname '' @ quote @ nickname @ quote @
                   '' is already taken. Please choose another nickname.'' @ CRLF) W1
                  (nicknameLoop E p rest) rest
              else (Returned None, rest, update_client p (\<lambda>c. c\<lparr>Nickname := nickname\<rparr>) W1)))"

definition requestNickname ::
  "ext \<Rightarrow> nat \<Rightarrow> read list \<Rightarrow> world \<Rightarrow> error option outcome \<times> read list \<times> world" where
  "requestNickname E p reads W =
     (case write_client p (FormatTitle E ''Welcome to Tailscale Terminal Chat'' @ CRLF @ CRLF) W of
        (Some err, W1) \<Rightarrow> (Returned (Some (FailedToWrite ''welcome message'' err)), reads, W1)
      | (None, W1) \<Rightarrow> nicknameLoop E p reads W1)"

definition sendWelcomeMessage :: "ext \<Rightarrow> nat \<Rightarrow> world \<Rightarrow> error option \<times> world" where
  "sendWelcomeMessage E p W =
     (case write_client p (Render E SystemStyle (banner E) @ CRLF) W of
        (Some err, W1) \<Rightarrow> (Some (FailedToWrite ''banner'' err), W1)
      | (None, W1) \<Rightarrow>
         (case write_client p
                 (FormatWelcomeMessage E (Name (room W)) (Nickname (heap W p)) @ CRLF @ CRLF) W1 of
            (Some err, W2) \<Rightarrow> (Some (FailedToWrite ''welcome message'' err), W2)
          | (None, W2) \<Rightarrow>
             (case write_client p
                     (''Type a message and press Enter to send. Type /help for commands.''
                      @ CRLF @ CRLF) W2 of
                (Some err, W3) \<Rightarrow> (Some (FailedToWrite ''help message'' err), W3)
              | (None, W3) \<Rightarrow> (None, W3))))"

definition conn_Close :: "nat \<Rightarrow> world \<Rightarrow> world" where
  "conn_Close p W = update_client p (\<lambda>c. c\<lparr>conn_closed := True\<rparr>) W"

text \<open>
  \<open>NewClient\<close> builds the client at the address \<open>p\<close>, whose cell holds the accepted
  connection, and returns the client's address or an error. \<open>room.Join\<close> is a send on
  an unbuffered channel: it returns when the loop has received the client, and the loop's
  \<open>addClient\<close> then runs beside the constructor. Nothing orders the constructor's read
  of \<open>fullRoomRejection\<close> with the write in \<open>addClient\<close>, so the read may come after it
  or before it; which of the two happens is a parameter. A stuck loop receives nothing: the
  constructor's \<open>room.Join\<close>, and its \<open>room.Leave\<close> after a failed welcome, then never
  return.
\<close>

definition new_client_cell :: "Client \<Rightarrow> Client" where
  "new_client_cell c =
     \<lparr>Nickname = [], conn_closed = conn_closed c, writer = [], fullRoomRejection = False,
      messageTimestamps = []\<rparr>"

datatype flag_read = AfterAddClient | BeforeAddClient

definition NewClient ::
  "ext \<Rightarrow> time \<Rightarrow> flag_read \<Rightarrow> nat \<Rightarrow> read list \<Rightarrow> world
     \<Rightarrow> (error + nat) outcome \<times> read list \<times> world" where
  "NewClient E now order p reads W =
     (case requestNickname E p reads (update_client p new_client_cell W) of
        (Waiting, rest, W1) \<Rightarrow> (Waiting, rest, W1)
      | (Returned (Some err), rest, W1) \<Rightarrow>
          (Returned (Inl (NicknameRequestFailed err)), rest, conn_Close p W1)
      | (Returned None, rest, W1) \<Rightarrow>
          if deadlocked (room W1) then (Waiting, rest, W1)
          else
            (let W2 = addClient E now p W1;
                 rejected = (case order of
                               AfterAddClient \<Rightarrow> fullRoomRejection (heap W2 p)
                             | BeforeAddClient \<Rightarrow> fullRoomRejection (heap W1 p))
             in if rejected
                then (Returned (Inl RoomIsFull), rest, conn_Close p W2)
                else case sendWelcomeMessage E p W2 of
                       (Some err, W3) \<Rightarrow>
                         if deadlocked (room W3) then (Waiting, rest, W3)
                         else (Returned (Inl (WelcomeMessageFailed err)), rest,
                               conn_Close p (removeClient E now p W3))
                     | (None, W3) \<Rightarrow> (Returned (Inr p), rest, W3)))"

section \<open>Invariants and sample values\<close>

text \<open>The room's map has one entry per nickname and no more entries than \<open>MaxUsers\<close>.\<close>

definition within_capacity :: "world \<Rightarrow> bool" where
  "within_capacity W \<longleftrightarrow>
     distinct (map fst (clients (room W))) \<and> int (length (clients (room W))) \<le> MaxUsers (room W)"

text \<open>The lines for which \<open>Handle\<close> calls \<open>checkRateLimit\<close>: not blank, not too long,
  not starting with \<open>/quit\<close>.\<close>

definition reaches_rate_limit :: "string \<Rightarrow> bool" where
  "reaches_rate_limit line \<longleftrightarrow>
     TrimSpace line \<noteq> [] \<and> length (TrimSpace line) \<le> MaxMessageLength
     \<and> \<not> HasPrefix (TrimSpace line) ''/quit''"

text \<open>A plain rendering and a small room, for evaluating the model.\<close>

definition plain :: ext where
  "plain = \<lparr>Render = (\<lambda>st s. s), FormatClock = (\<lambda>t. ''12:00:00''),
            FormatSeconds = (\<lambda>d. Itoa (d div 1000000000)), banner = ''CHAT ROOM''\<rparr>"

definition session :: "string \<Rightarrow> Client" where
  "session nick =
     \<lparr>Nickname = nick, conn_closed = False, writer = [], fullRoomRejection = False,
      messageTimestamps = []\<rparr>"

definition guests :: "nat \<Rightarrow> Client" where
  "guests p =
     (if p = 0 then session ''Alice'' else if p = 1 then session ''Bob'' else session ''Carol'')"

definition lobby :: "int \<Rightarrow> (string \<times> nat) list \<Rightarrow> world" where
  "lobby maxUsers members =
     \<lparr>room = \<lparr>Name = ''Chat Room'', MaxUsers = maxUsers, clients = members,
               deadlocked = False\<rparr>,
      heap = guests\<rparr>"

text \<open>Alice has sent five short messages, 100 ns apart.\<close>

definition burst :: world where
  "burst =
     snd (Handle plain 0
            [(100, Read (Line ''one'')), (200, Read (Line ''two'')), (300, Read (Line ''three'')),
             (400, Read (Line ''four'')), (500, Read (Line ''five''))]
            (lobby 2 [(''Alice'', 0), (''Bob'', 1)]))"

section \<open>Facts about the store\<close>

lemma room_update_client [simp]: "room (update_client p f W) = room W"
  by (simp add: update_client_def)

lemma heap_update_client: "heap (update_client p f W) q = (if q = p then f (heap W p) else heap W q)"
  by (simp add: update_client_def)

lemma room_sendMessage [simp]: "room (sendMessage E p msg W) = room W"
  by (simp add: sendMessage_def)

lemma room_sendSystemMessage [simp]: "room (sendSystemMessage E now p s W) = room W"
  by (simp add: sendSystemMessage_def)

lemma room_fold_sendMessage [simp]:
  "room (fold (\<lambda>(nickname, client). sendMessage E client msg) l W) = room W"
  by (induction l arbitrary: W) (auto simp: split_def)

lemma room_broadcastMessage [simp]: "room (broadcastMessage E msg W) = room W"
  by (simp add: broadcastMessage_def)

lemma broadcastMessage_holding_lock_simps [simp]:
  "heap (broadcastMessage_holding_lock msg W) = heap W"
  "clients (room (broadcastMessage_holding_lock msg W)) = clients (room W)"
  "MaxUsers (room (broadcastMessage_holding_lock msg W)) = MaxUsers (room W)"
  "Name (room (broadcastMessage_holding_lock msg W)) = Name (room W)"
  "deadlocked (room (broadcastMessage_holding_lock msg W))"
  by (simp_all add: broadcastMessage_holding_lock_def)

section \<open>The room never holds more members than its capacity\<close>

lemma clients_addClient:
  "clients (room (addClient E now c W)) =
     (if int (length (clients (room W))) \<ge> MaxUsers (room W) then clients (room W)
      else AList.update (Nickname (heap W c)) c (clients (room W)))"
  by (simp add: addClient_def)

lemma MaxUsers_addClient [simp]: "MaxUsers (room (addClient E now c W)) = MaxUsers (room W)"
  by (simp add: addClient_def)

lemma clients_removeClient:
  "clients (room (removeClient E now c W)) = AList.delete (Nickname (heap W c)) (clients (room W))"
  by (auto simp: removeClient_def map_of_eq_None_iff)

lemma MaxUsers_removeClient [simp]: "MaxUsers (room (removeClient E now c W)) = MaxUsers (room W)"
  by (simp add: removeClient_def)

lemma length_alist_update:
  "length (AList.update k v al) = (if k \<in> fst ` set al then length al else Suc (length al))"
  by (induction al) auto

lemma within_capacity_addClient: "within_capacity W \<Longrightarrow> within_capacity (addClient E now c W)"
  by (auto simp: within_capacity_def clients_addClient AList.distinct_update length_alist_update)

lemma within_capacity_removeClient: "within_capacity W \<Longrightarrow> within_capacity (removeClient E now c W)"
  using AList.length_delete_le [of "Nickname (heap W c)" "clients (room W)"]
  by (auto simp: within_capacity_def clients_removeClient AList.distinct_delete)

lemma within_capacity_broadcastMessage:
  "within_capacity W \<Longrightarrow> within_capacity (broadcastMessage E msg W)"
  by (simp add: within_capacity_def)

lemma within_capacity_run: "within_capacity W \<Longrightarrow> within_capacity (run E rs W)"
  by (induction E rs W rule: run.induct)
     (simp_all add: within_capacity_addClient within_capacity_removeClient
        within_capacity_broadcastMessage)

lemma run_deadlocked: "deadlocked (room W) \<Longrightarrow> run E rs W = W"
  by (cases "(E, rs, W)" rule: run.cases) simp_all

lemma MaxUsers_run [simp]: "MaxUsers (room (run E rs W)) = MaxUsers (room W)"
  by (induction E rs W rule: run.induct) simp_all

text \<open>
  Claim C1. A room made by \<open>NewRoom\<close> with a capacity that is not negative never has more
  entries in its map than \<open>MaxUsers\<close>, whatever Join, Leave and Broadcast requests the
  control loop handles, and the map keeps one entry per nickname. A Join that is handled when
  the number of entries equals \<open>MaxUsers\<close> is rejected: the map is unchanged and the
  client's rejection flag is set.
\<close>

theorem room_never_exceeds_capacity:
  "(0 \<le> maxUsers \<longrightarrow>
      int (length (clients (room (run E rs \<lparr>room = NewRoom name maxUsers, heap = H\<rparr>)))) \<le> maxUsers \<and>
      distinct (map fst (clients (room (run E rs \<lparr>room = NewRoom name maxUsers, heap = H\<rparr>))))) \<and>
   (int (length (clients (room W))) = MaxUsers (room W) \<longrightarrow>
      clients (room (addClient E now c W)) = clients (room W) \<and>
      fullRoomRejection (heap (addClient E now c W) c))"
proof -
  have "within_capacity (run E rs \<lparr>room = NewRoom name maxUsers, heap = H\<rparr>)" if "0 \<le> maxUsers"
    using that by (intro within_capacity_run) (simp add: within_capacity_def NewRoom_def)
  moreover have "MaxUsers (room (run E rs \<lparr>room = NewRoom name maxUsers, heap = H\<rparr>)) = maxUsers"
    by (simp add: NewRoom_def)
  ultimately show ?thesis
    by (auto simp: within_capacity_def clients_addClient addClient_def heap_update_client)
qed

theorem room_never_exceeds_capacity_witness:
  "(0::int) \<le> 1 \<and>
   int (length (clients (room (run plain [(0, Join 0), (1, Join 1), (2, Leave 2)]
      \<lparr>room = NewRoom ''Chat Room'' 1, heap = guests\<rparr>)))) \<le> 1 \<and>
   int (length (clients (room (lobby 1 [(''Alice'', 0)])))) = MaxUsers (room (lobby 1 [(''Alice'', 0)])) \<and>
   clients (room (addClient plain 5 1 (lobby 1 [(''Alice'', 0)]))) = [(''Alice'', 0)] \<and>
   fullRoomRejection (heap (addClient plain 5 1 (lobby 1 [(''Alice'', 0)])) 1)"
  using room_never_exceeds_capacity [where maxUsers = 1 and E = plain
          and rs = "[(0, Join 0), (1, Join 1), (2, Leave 2)]" and name = "''Chat Room''" and H = guests
          and W = "lobby 1 [(''Alice'', 0)]" and now = 5 and c = 1]
  by (simp add: lobby_def)

section \<open>What sending and broadcasting change\<close>

lemma heap_sendMessage:
  "heap (sendMessage E p msg W) q =
     (if q = p then (heap W p)\<lparr>writer := writer (heap W p) @ [formatted E (Nickname (heap W p)) msg]\<rparr>
      else heap W q)"
  by (simp add: sendMessage_def heap_update_client)

lemma formatted_system [simp]:
  "IsSystem msg \<Longrightarrow> formatted E nick msg = FormatSystemMessage E (Content msg) @ CRLF"
  by (simp add: formatted_def)

lemma sendSystemMessage_eq:
  "sendSystemMessage E now p s W =
     update_client p (\<lambda>c. c\<lparr>writer := writer c @ [FormatSystemMessage E s @ CRLF]\<rparr>) W"
  by (simp add: sendSystemMessage_def sendMessage_def)

lemma heap_fold_sendMessage:
  "distinct (map snd l) \<Longrightarrow>
   heap (fold (\<lambda>(nickname, client). sendMessage E client msg) l W) q =
     (if q \<in> snd ` set l
      then (heap W q)\<lparr>writer := writer (heap W q) @ [formatted E (Nickname (heap W q)) msg]\<rparr>
      else heap W q)"
proof (induction l arbitrary: W)
  case Nil
  then show ?case by simp
next
  case (Cons a l)
  obtain n c where a: "a = (n, c)" by (cases a)
  from Cons.prems a have c: "c \<notin> snd ` set l" and d: "distinct (map snd l)" by auto
  have "heap (fold (\<lambda>(nickname, client). sendMessage E client msg) (a # l) W) q =
        heap (fold (\<lambda>(nickname, client). sendMessage E client msg) l (sendMessage E c msg W)) q"
    by (simp add: a)
  also have "\<dots> = (if q \<in> snd ` set l
      then (heap (sendMessage E c msg W) q)\<lparr>writer := writer (heap (sendMessage E c msg W) q) @
             [formatted E (Nickname (heap (sendMessage E c msg W) q)) msg]\<rparr>
      else heap (sendMessage E c msg W) q)"
    by (rule Cons.IH [OF d])
  also have "\<dots> = (if q \<in> snd ` set (a # l)
      then (heap W q)\<lparr>writer := writer (heap W q) @ [formatted E (Nickname (heap W q)) msg]\<rparr>
      else heap W q)"
  proof (cases "q = c")
    case True
    then show ?thesis using c by (simp add: a heap_sendMessage)
  next
    case False
    then show ?thesis by (simp add: a heap_sendMessage)
  qed
  finally show ?case .
qed

lemma heap_broadcastMessage:
  "distinct (map snd (clients (room W))) \<Longrightarrow>
   heap (broadcastMessage E msg W) q =
     (if q \<in> snd ` set (clients (room W))
      then (heap W q)\<lparr>writer := writer (heap W q) @ [formatted E (Nickname (heap W q)) msg]\<rparr>
      else heap W q)"
  by (simp add: broadcastMessage_def heap_fold_sendMessage)



lemma fold_sendMessage_only_writer:
  "\<exists>ws. heap (fold (\<lambda>(nickname, client). sendMessage E client msg) l W) q = (heap W q)\<lparr>writer := ws\<rparr>"
proof (induction l arbitrary: W)
  case Nil
  have "heap W q = (heap W q)\<lparr>writer := writer (heap W q)\<rparr>" by simp
  then have "\<exists>ws. heap W q = (heap W q)\<lparr>writer := ws\<rparr>" by (rule exI)
  then show ?case by simp
next
  case (Cons a l)
  obtain n c where a: "a = (n, c)" by (cases a)
  obtain ws where "heap (fold (\<lambda>(nickname, client). sendMessage E client msg) l (sendMessage E c msg W)) q
      = (heap (sendMessage E c msg W) q)\<lparr>writer := ws\<rparr>"
    using Cons.IH by blast
  then have "heap (fold (\<lambda>(nickname, client). sendMessage E client msg) (a # l) W) q = (heap W q)\<lparr>writer := ws\<rparr>"
    by (cases "q = c") (simp_all add: a heap_sendMessage)
  then show ?case by blast
qed

lemma broadcastMessage_only_writer:
  "\<exists>ws. heap (broadcastMessage E msg W) q = (heap W q)\<lparr>writer := ws\<rparr>"
  unfolding broadcastMessage_def by (rule fold_sendMessage_only_writer)

lemma broadcastMessage_keeps [simp]:
  "Nickname (heap (broadcastMessage E msg W) q) = Nickname (heap W q)"
  "conn_closed (heap (broadcastMessage E msg W) q) = conn_closed (heap W q)"
  "fullRoomRejection (heap (broadcastMessage E msg W) q) = fullRoomRejection (heap W q)"
  "messageTimestamps (heap (broadcastMessage E msg W) q) = messageTimestamps (heap W q)"
  using broadcastMessage_only_writer [of E msg W q] by auto

lemma sendSystemMessage_keeps [simp]:
  "Nickname (heap (sendSystemMessage E now p s W) q) = Nickname (heap W q)"
  "conn_closed (heap (sendSystemMessage E now p s W) q) = conn_closed (heap W q)"
  "fullRoomRejection (heap (sendSystemMessage E now p s W) q) = fullRoomRejection (heap W q)"
  "messageTimestamps (heap (sendSystemMessage E now p s W) q) = messageTimestamps (heap W q)"
  by (simp_all add: sendSystemMessage_eq heap_update_client)

lemma addClient_keeps_conn [simp]:
  "conn_closed (heap (addClient E now c W) q) = conn_closed (heap W q)"
  by (simp add: addClient_def heap_update_client)

lemma addClient_full:
  "int (length (clients (room W))) \<ge> MaxUsers (room W) \<Longrightarrow>
   addClient E now c W =
     update_client c (\<lambda>cl. cl\<lparr>writer := writer cl @
         [FormatSystemMessage E ''Sorry, the room is full. Try again later.'' @ CRLF],
       fullRoomRejection := True\<rparr>) W"
  by (simp add: addClient_def sendSystemMessage_eq update_client_def)

lemma addClient_accepted:
  "int (length (clients (room W))) < MaxUsers (room W) \<Longrightarrow>
   addClient E now c W =
     W\<lparr>room := (room W)\<lparr>clients := AList.update (Nickname (heap W c)) c (clients (room W)),
                          deadlocked := True\<rparr>\<rparr>"
  by (simp add: addClient_def broadcastMessage_holding_lock_def)

lemma removeClient_absent:
  "map_of (clients (room W)) (Nickname (heap W c)) = None \<Longrightarrow> removeClient E now c W = W"
  by (simp add: removeClient_def)

lemma removeClient_member:
  "map_of (clients (room W)) (Nickname (heap W c)) \<noteq> None \<Longrightarrow>
   removeClient E now c W =
     W\<lparr>room := (room W)\<lparr>clients := AList.delete (Nickname (heap W c)) (clients (room W)),
                          deadlocked := True\<rparr>\<rparr>"
  by (simp add: removeClient_def broadcastMessage_holding_lock_def)

lemma heap_removeClient [simp]: "heap (removeClient E now c W) = heap W"
  by (simp add: removeClient_def)

lemma removeClient_twice: "removeClient E t2 c (removeClient E t1 c W) = removeClient E t1 c W"
  by (rule removeClient_absent) (simp add: clients_removeClient AList.delete_conv')

lemma addClient_member:
  "int (length (clients (room W))) < MaxUsers (room W) \<Longrightarrow>
   map_of (clients (room (addClient E now c W))) (Nickname (heap W c)) = Some c"
  by (simp add: clients_addClient AList.update_conv')

lemma addClient_draft_closes:
  "MaxUsers (room W) \<le> int (length (clients (room W))) \<Longrightarrow>
   conn_closed (heap (addClient_draft E now c W) c)"
  by (simp add: addClient_draft_def heap_update_client)


text \<open>
  Claim C3, the defect. A room for two receives Bob's Join and then his Leave twice: the
  Join adds Bob and leaves the loop stuck in \<open>broadcastMessage\<close>, so neither Leave is
  handled, Bob stays in the map and nothing is written to him. And where \<open>removeClient\<close>
  does run on a room that holds Alice and Bob, it deletes Bob's entry and gets stuck in the
  same way: Alice is never told that Bob has left.
\<close>

theorem leave_after_join_never_notifies:
  "clients (room (run plain [(1, Join 1), (2, Leave 1), (3, Leave 1)]
      \<lparr>room = NewRoom ''Chat Room'' 2, heap = guests\<rparr>)) = [(''Bob'', 1)] \<and>
   deadlocked (room (run plain [(1, Join 1), (2, Leave 1), (3, Leave 1)]
      \<lparr>room = NewRoom ''Chat Room'' 2, heap = guests\<rparr>)) \<and>
   writer (heap (run plain [(1, Join 1), (2, Leave 1), (3, Leave 1)]
      \<lparr>room = NewRoom ''Chat Room'' 2, heap = guests\<rparr>) 1) = [] \<and>
   clients (room (removeClient plain 8 1 (lobby 2 [(''Alice'', 0), (''Bob'', 1)]))) = [(''Alice'', 0)] \<and>
   deadlocked (room (removeClient plain 8 1 (lobby 2 [(''Alice'', 0), (''Bob'', 1)]))) \<and>
   writer (heap (removeClient plain 8 1 (lobby 2 [(''Alice'', 0), (''Bob'', 1)])) 0) = []"
  by code_simp

section \<open>Message length and rate limit\<close>

lemma Itoa_limits: "Itoa (int MaxMessageLength) = ''1000''" "Itoa (int MessageRateLimit) = ''5''"
  by code_simp+

lemma ErrorString_MessageTooLong:
  "ErrorString E MessageTooLong = ''message too long (max 1000 characters)''"
  by (simp add: Itoa_limits)

lemma validateMessageLength_iff:
  "validateMessageLength m = (if length m \<le> 1000 then None else Some MessageTooLong)"
  by (simp add: validateMessageLength_def MaxMessageLength_def)

lemma handleLine_too_long:
  "1000 < length (TrimSpace line) \<Longrightarrow>
   handleLine E now p line W =
     sendSystemMessage E now p ''Error: message too long (max 1000 characters)'' W"
  by (auto simp: handleLine_def validateMessageLength_iff Itoa_limits Let_def)

text \<open>
  Claim C4. A trimmed line of at most 1000 bytes passes \<open>validateMessageLength\<close>; a
  longer one, so one of 1001 bytes, is an error. For such a line the loop's body only writes
  the system message with the too-long error to the sender (the room and every other client
  are unchanged, so nothing is broadcast), and \<open>Handle\<close> goes on with the next input.
\<close>

theorem message_length_limit:
  "(length (TrimSpace line) \<le> 1000 \<longrightarrow> validateMessageLength (TrimSpace line) = None) \<and>
   (1000 < length (TrimSpace line) \<longrightarrow>
      validateMessageLength (TrimSpace line) = Some MessageTooLong \<and>
      handleLine E now p line W =
        update_client p (\<lambda>c. c\<lparr>writer := writer c @
          [FormatSystemMessage E ''Error: message too long (max 1000 characters)'' @ CRLF]\<rparr>) W \<and>
      Handle E p ((now, Read (Line line)) # rest) W =
        Handle E p rest (sendSystemMessage E now p ''Error: message too long (max 1000 characters)'' W))"
  by (simp add: validateMessageLength_iff handleLine_too_long sendSystemMessage_eq)

lemma TrimSpace_replicate_a: "TrimSpace (replicate n (CHR ''a'')) = replicate n (CHR ''a'')"
proof -
  have "dropWhile isSpaceByte (replicate n (CHR ''a'')) = replicate n (CHR ''a'')"
    by (cases n) (simp_all add: isSpaceByte_def)
  then show ?thesis by (simp add: TrimSpace_def)
qed

theorem message_length_limit_witness:
  "length (TrimSpace (replicate 1000 (CHR ''a''))) \<le> 1000 \<and>
   validateMessageLength (TrimSpace (replicate 1000 (CHR ''a''))) = None \<and>
   1000 < length (TrimSpace (replicate 1001 (CHR ''a''))) \<and>
   validateMessageLength (TrimSpace (replicate 1001 (CHR ''a''))) = Some MessageTooLong \<and>
   handleLine plain 3 0 (replicate 1001 (CHR ''a'')) (lobby 2 [(''Alice'', 0), (''Bob'', 1)]) =
     update_client 0 (\<lambda>c. c\<lparr>writer := writer c @
          [FormatSystemMessage plain ''Error: message too long (max 1000 characters)'' @ CRLF]\<rparr>)
       (lobby 2 [(''Alice'', 0), (''Bob'', 1)])"
proof -
  have a: "length (TrimSpace (replicate 1000 (CHR ''a''))) \<le> 1000"
    and b: "1000 < length (TrimSpace (replicate 1001 (CHR ''a'')))"
    by (simp_all add: TrimSpace_replicate_a)
  show ?thesis
    using message_length_limit [where line = "replicate 1000 (CHR ''a'')"] a
      message_length_limit [where line = "replicate 1001 (CHR ''a'')" and E = plain and now = 3
        and p = 0 and W = "lobby 2 [(''Alice'', 0), (''Bob'', 1)]"] b
    by blast
qed


lemma checkRateLimit_timestamps:
  "messageTimestamps (heap (snd (checkRateLimit now p W)) p) =
     filter (\<lambda>ts. now - RateLimitWindow < ts) (messageTimestamps (heap W p)) @ [now]"
  by (simp add: checkRateLimit_def Let_def heap_update_client RateLimitWindow_def)

lemma checkRateLimit_world:
  "snd (checkRateLimit now p W) =
     update_client p (\<lambda>c. c\<lparr>messageTimestamps :=
        filter (\<lambda>ts. now - RateLimitWindow < ts) (messageTimestamps c @ [now])\<rparr>) W"
  by (simp add: checkRateLimit_def Let_def update_client_def)

lemma checkRateLimit_result:
  "fst (checkRateLimit now p W) =
     (let window = filter (\<lambda>ts. now - RateLimitWindow < ts) (messageTimestamps (heap W p) @ [now])
      in if 5 < length window then Some (RateLimitExceeded (window ! 0 + RateLimitWindow - now))
         else None)"
  by (simp add: checkRateLimit_def Let_def MessageRateLimit_def)

lemma sorted_hd_Min: "sorted xs \<Longrightarrow> xs \<noteq> [] \<Longrightarrow> xs ! 0 = Min (set xs)"
  by (cases xs) (auto intro!: Min_eqI [symmetric])

lemma window_sorted:
  "sorted (ts @ [now]) \<Longrightarrow> sorted (filter (\<lambda>t. now - RateLimitWindow < t) (ts @ [now]))"
  by (rule sorted_wrt_filter)

lemma checkRateLimit_wait:
  assumes "sorted (messageTimestamps (heap W p) @ [now])"
    and "fst (checkRateLimit now p W) \<noteq> None"
  shows "fst (checkRateLimit now p W) =
     Some (RateLimitExceeded
       (Min {ts \<in> set (messageTimestamps (heap W p) @ [now]). now - RateLimitWindow < ts}
          + RateLimitWindow - now))"
proof -
  let ?w = "filter (\<lambda>ts. now - RateLimitWindow < ts) (messageTimestamps (heap W p) @ [now])"
  from assms(2) have len: "5 < length ?w"
    by (simp add: checkRateLimit_result Let_def split: if_splits)
  then have ne: "?w \<noteq> []" by auto
  have "?w ! 0 = Min (set ?w)"
    using window_sorted [OF assms(1)] ne by (rule sorted_hd_Min)
  moreover have "set ?w = {ts \<in> set (messageTimestamps (heap W p) @ [now]). now - RateLimitWindow < ts}"
    by auto
  ultimately show ?thesis using len by (simp add: checkRateLimit_result Let_def)
qed

lemma checkRateLimit_keeps_order:
  assumes "sorted (messageTimestamps (heap W p) @ [now])"
  shows "sorted (messageTimestamps (heap (snd (checkRateLimit now p W)) p))"
proof -
  have "messageTimestamps (heap (snd (checkRateLimit now p W)) p) =
      filter (\<lambda>ts. now - RateLimitWindow < ts) (messageTimestamps (heap W p) @ [now])"
    by (simp add: checkRateLimit_timestamps RateLimitWindow_def)
  then show ?thesis using window_sorted [OF assms] by simp
qed

lemma checkRateLimit_after_window:
  assumes "\<forall>ts \<in> set (messageTimestamps (heap W p)). ts + RateLimitWindow \<le> now"
  shows "fst (checkRateLimit now p W) = None"
proof -
  have "filter (\<lambda>ts. now - RateLimitWindow < ts) (messageTimestamps (heap W p)) = []"
    using assms by (auto simp: filter_empty_conv)
  then show ?thesis by (simp add: checkRateLimit_result Let_def RateLimitWindow_def)
qed


lemma write_client_keeps [simp]:
  "messageTimestamps (heap (snd (write_client p m W)) q) = messageTimestamps (heap W q)"
  "Nickname (heap (snd (write_client p m W)) q) = Nickname (heap W q)"
  "room (snd (write_client p m W)) = room W"
  by (simp_all add: write_client_def Let_def heap_update_client)

lemma handleCommand_keeps [simp]:
  "messageTimestamps (heap (snd (handleCommand E now p cmd W)) q) = messageTimestamps (heap W q)"
  "Nickname (heap (snd (handleCommand E now p cmd W)) q) = Nickname (heap W q)"
  by (simp_all add: handleCommand_def Let_def showUserList_def showHelp_def heap_update_client)

lemma handleLine_timestamps:
  "messageTimestamps (heap (handleLine E now p line W) q) =
     (if q = p \<and> TrimSpace line \<noteq> [] \<and> length (TrimSpace line) \<le> 1000
         \<and> \<not> HasPrefix (TrimSpace line) ''/quit''
      then filter (\<lambda>ts. now - RateLimitWindow < ts) (messageTimestamps (heap W p)) @ [now]
      else messageTimestamps (heap W q))"
proof -
  have c: "messageTimestamps (heap (snd (checkRateLimit now p W)) q) =
      (if q = p then filter (\<lambda>ts. now - RateLimitWindow < ts) (messageTimestamps (heap W p)) @ [now]
       else messageTimestamps (heap W q))" for q
    by (simp add: checkRateLimit_world heap_update_client RateLimitWindow_def)
  have k: "messageTimestamps (heap (case handleCommand E now p m V of
              (Some err, W2) \<Rightarrow> sendSystemMessage E now p (''Error: '' @ ErrorString E err) W2
            | (None, W2) \<Rightarrow> W2) q) = messageTimestamps (heap V q)" for m V q
    using handleCommand_keeps(1) [of E now p m V q]
    by (cases "handleCommand E now p m V") (auto split: option.splits)
  show ?thesis
  proof (cases "TrimSpace line \<noteq> [] \<and> length (TrimSpace line) \<le> 1000")
    case False
    then show ?thesis
      by (auto simp: handleLine_def Let_def validateMessageLength_iff)
  next
    case True
    show ?thesis
    proof (cases "HasPrefix (TrimSpace line) ''/quit''")
      case q: True
      then have "HasPrefix (TrimSpace line) ''/''"
        by (cases "TrimSpace line") (auto simp: HasPrefix_def)
      with True q show ?thesis
        by (simp add: handleLine_def Let_def validateMessageLength_iff k)
    next
      case nq: False
      obtain r V where cr: "checkRateLimit now p W = (r, V)" by (cases "checkRateLimit now p W")
      have V: "messageTimestamps (heap V q) =
        (if q = p then filter (\<lambda>ts. now - RateLimitWindow < ts) (messageTimestamps (heap W p)) @ [now]
         else messageTimestamps (heap W q))" for q
        using c [of q] cr by simp
      from True nq cr show ?thesis
        by (cases r) (auto simp: handleLine_def Let_def validateMessageLength_iff k V)
    qed
  qed
qed


lemma handleLine_rate_limited:
  assumes "reaches_rate_limit line" and "fst (checkRateLimit now p W) = Some err"
  shows "handleLine E now p line W =
     sendSystemMessage E now p (''Error: '' @ ErrorString E err) (snd (checkRateLimit now p W))"
proof -
  obtain V where "checkRateLimit now p W = (Some err, V)"
    using assms(2) by (cases "checkRateLimit now p W") auto
  with assms(1) show ?thesis
    by (simp add: handleLine_def Let_def reaches_rate_limit_def validateMessageLength_def)
qed

lemma handleLine_quit_prefix:
  assumes "HasPrefix (TrimSpace line) ''/quit''" and "length (TrimSpace line) \<le> 1000"
  shows "handleLine E now p line W =
     (case handleCommand E now p (TrimSpace line) W of
        (Some err, W2) \<Rightarrow> sendSystemMessage E now p (''Error: '' @ ErrorString E err) W2
      | (None, W2) \<Rightarrow> W2)"
proof -
  from assms(1) have "HasPrefix (TrimSpace line) ''/''" and "TrimSpace line \<noteq> []"
    by (cases "TrimSpace line"; auto simp: HasPrefix_def)+
  with assms show ?thesis
    by (simp add: handleLine_def Let_def validateMessageLength_iff)
qed

lemma sixth_in_window_rejected:
  assumes l: "reaches_rate_limit l1" "reaches_rate_limit l2" "reaches_rate_limit l3"
      "reaches_rate_limit l4" "reaches_rate_limit l5"
    and t: "t1 \<le> t2" "t2 \<le> t3" "t3 \<le> t4" "t4 \<le> t5" "t5 \<le> t6" "t6 < t1 + RateLimitWindow"
  shows "fst (checkRateLimit t6 p (snd (Handle E p
           [(t1, Read (Line l1)), (t2, Read (Line l2)), (t3, Read (Line l3)),
            (t4, Read (Line l4)), (t5, Read (Line l5))] W))) \<noteq> None"
  using l t
  by (simp add: checkRateLimit_result Let_def handleLine_timestamps reaches_rate_limit_def
        MaxMessageLength_def)


lemma reaches_rate_limit_words [simp]:
  "reaches_rate_limit ''one''" "reaches_rate_limit ''two''" "reaches_rate_limit ''three''"
  "reaches_rate_limit ''four''" "reaches_rate_limit ''five''" "reaches_rate_limit ''six''"
  "reaches_rate_limit ''seven''" "reaches_rate_limit ''eight''" "reaches_rate_limit ''nine''"
  "reaches_rate_limit ''ten''"
  by (simp_all add: reaches_rate_limit_def TrimSpace_def isSpaceByte_def HasPrefix_def
        MaxMessageLength_def)

lemma handleLine_timestamps_reached:
  "reaches_rate_limit line \<Longrightarrow>
   messageTimestamps (heap (handleLine E now p line W) p) =
     filter (\<lambda>ts. now - RateLimitWindow < ts) (messageTimestamps (heap W p)) @ [now]"
  by (simp add: handleLine_timestamps reaches_rate_limit_def MaxMessageLength_def)

lemma burst_timestamps: "messageTimestamps (heap burst 0) = [100, 200, 300, 400, 500]"
  by (simp add: burst_def handleLine_timestamps_reached RateLimitWindow_def)
     (simp add: lobby_def guests_def session_def)

lemma rate_limited_writer:
  assumes "reaches_rate_limit line" and "fst (checkRateLimit now p W) = Some err"
  shows "handleLine E now p line W =
     update_client p (\<lambda>c. c\<lparr>messageTimestamps :=
           filter (\<lambda>ts. now - RateLimitWindow < ts) (messageTimestamps c @ [now]),
         writer := writer c @ [FormatSystemMessage E (''Error: '' @ ErrorString E err) @ CRLF]\<rparr>) W"
  by (simp add: handleLine_rate_limited [OF assms] checkRateLimit_world sendSystemMessage_eq
        update_client_def)

lemma rate_limited_wait_written:
  assumes "reaches_rate_limit line" and "sorted (messageTimestamps (heap W p) @ [now])"
    and "fst (checkRateLimit now p W) \<noteq> None"
  shows "writer (heap (handleLine E now p line W) p) =
     writer (heap W p) @
       [FormatSystemMessage E
          (''Error: rate limit exceeded (max 5 messages per 5s). Try again in '' @
           FormatSeconds E
             (Min {ts \<in> set (messageTimestamps (heap W p) @ [now]). now - RateLimitWindow < ts}
                + RateLimitWindow - now) @
           '' seconds'') @ CRLF]"
  using rate_limited_writer [OF assms(1) checkRateLimit_wait [OF assms(2,3)], of E]
  by (simp add: heap_update_client Itoa_limits)




text \<open>
  Claim C6, the defect. After Alice's five messages the attempt at 600 ns is rejected with the
  advice to wait 4999999500 ns, and its timestamp is kept in the window. At the advised
  time, 5000000100 ns, the next attempt is rejected again, because the rejected one still
  counts; with the window as it was before the rejected attempt it is accepted.
\<close>

theorem advised_wait_is_too_short:
  "messageTimestamps (heap burst 0) = [100, 200, 300, 400, 500] \<and>
   fst (checkRateLimit 600 0 burst) = Some (RateLimitExceeded 4999999500) \<and>
   messageTimestamps (heap (snd (checkRateLimit 600 0 burst)) 0) = [100, 200, 300, 400, 500, 600] \<and>
   600 + 4999999500 = (5000000100 :: int) \<and>
   fst (checkRateLimit 5000000100 0 (snd (checkRateLimit 600 0 burst))) =
     Some (RateLimitExceeded 100) \<and>
   fst (checkRateLimit 5000000100 0 burst) = None"
  by (simp add: checkRateLimit_result checkRateLimit_timestamps burst_timestamps
        RateLimitWindow_def Let_def)

section \<open>Nickname negotiation\<close>

lemma write_client_open:
  "\<not> conn_closed (heap W p) \<Longrightarrow>
   write_client p m W = (None, update_client p (\<lambda>c. c\<lparr>writer := writer c @ [m]\<rparr>) W)"
  by (simp add: write_client_def Let_def)

lemma conn_closed_write_client [simp]:
  "conn_closed (heap (snd (write_client p m W)) q) = conn_closed (heap W q)"
  by (simp add: write_client_def Let_def heap_update_client)

lemma reject_nickname_open:
  "\<not> conn_closed (heap W p) \<Longrightarrow>
   reject_nickname p errMsg W continue rest = continue (snd (write_client p errMsg W))"
  by (simp add: reject_nickname_def write_client_open)

lemma nicknameLoop_line:
  assumes "\<not> conn_closed (heap W p)"
  shows "nicknameLoop E p (Line l # rest) W =
     (let W1 = snd (write_client p (Render E InputStyle ''Please enter your nickname: '') W);
          nickname = TrimSpace l
      in if nickname = [] then
           nicknameLoop E p rest
             (snd (write_client p (''Nickname cannot be empty. Please try again.'' @ CRLF) W1))
         else if ToLower nickname = ''system'' then
           nicknameLoop E p rest
             (snd (write_client p (''Nickname '' @ quote @ ''System'' @ quote @
                   '' is reserved. Please choose another nickname.'' @ CRLF) W1))
         else if \<not> IsNicknameAvailable (room W) nickname then
           nicknameLoop E p rest
             (snd (write_client p (''Nickname '' @ quote @ nickname @ quote @
                   '' is already taken. Please choose another nickname.'' @ CRLF) W1))
         else (Returned None, rest, update_client p (\<lambda>c. c\<lparr>Nickname := nickname\<rparr>) W1))"
  using assms
  by (simp add: write_client_open heap_update_client reject_nickname_def Let_def)


lemma writer_write_client [simp]:
  "writer (heap (snd (write_client p m W)) p) = writer (heap W p) @ [m]"
  by (simp add: write_client_def Let_def heap_update_client)

lemma checkRateLimit_keeps [simp]:
  "Nickname (heap (snd (checkRateLimit now p W)) q) = Nickname (heap W q)"
  "room (snd (checkRateLimit now p W)) = room W"
  by (simp_all add: checkRateLimit_world heap_update_client)

lemma Nickname_handleLine [simp]:
  "Nickname (heap (handleLine E now p line W) q) = Nickname (heap W q)"
  by (simp add: handleLine_def Let_def split_beta split: option.splits)

lemma Nickname_Handle: "Nickname (heap (snd (Handle E p ins W)) q) = Nickname (heap W q)"
  by (induction E p ins W rule: Handle.induct) simp_all

lemma reject_nickname_prompts:
  assumes "\<And>V. \<exists>ws. writer (heap (snd (snd (continue V))) p) = writer (heap V p) @ x # ws"
  shows "\<exists>ws. writer (heap (snd (snd (reject_nickname p errMsg W continue rest))) p) =
           writer (heap W p) @ errMsg # ws"
proof (cases "conn_closed (heap W p)")
  case True
  then show ?thesis by (simp add: reject_nickname_def write_client_def Let_def heap_update_client)
next
  case False
  obtain ws where "writer (heap (snd (snd (continue (snd (write_client p errMsg W))))) p) =
      writer (heap (snd (write_client p errMsg W)) p) @ x # ws"
    using assms by blast
  with False show ?thesis by (simp add: reject_nickname_open)
qed

lemma nicknameLoop_prompts:
  "\<exists>ws. writer (heap (snd (snd (nicknameLoop E p reads W))) p) =
     writer (heap W p) @ Render E InputStyle ''Please enter your nickname: '' # ws"
proof (induction reads arbitrary: W)
  case Nil
  then show ?case by (simp add: write_client_def Let_def heap_update_client)
next
  case (Cons a reads)
  let ?prompt = "Render E InputStyle ''Please enter your nickname: ''"
  let ?W1 = "update_client p (\<lambda>c. c\<lparr>writer := writer c @ [?prompt]\<rparr>) W"
  have W1: "writer (heap ?W1 p) = writer (heap W p) @ [?prompt]"
    by (simp add: heap_update_client)
  have rej: "\<exists>ws. writer (heap (snd (snd (reject_nickname p m ?W1 (nicknameLoop E p reads) reads))) p) =
      writer (heap W p) @ ?prompt # ws" for m
    using reject_nickname_prompts [of "nicknameLoop E p reads" p ?prompt m ?W1 reads] Cons.IH
    by (simp add: W1) blast
  show ?case
  proof (cases a)
    case (ReadFailed e)
    then show ?thesis by (simp add: write_client_def Let_def heap_update_client)
  next
    case (Line l)
    show ?thesis
    proof (cases "conn_closed (heap W p)")
      case True
      then show ?thesis by (simp add: Line write_client_def Let_def heap_update_client)
    next
      case False
      then have w: "write_client p ?prompt W = (None, ?W1)" by (rule write_client_open)
      show ?thesis
        using rej by (simp add: Line w Let_def) (simp add: heap_update_client)
    qed
  qed
qed


lemma lowerByte_system:
  "lowerByte (CHR ''S'') = CHR ''s''" "lowerByte (CHR ''Y'') = CHR ''y''"
  "lowerByte (CHR ''T'') = CHR ''t''" "lowerByte (CHR ''E'') = CHR ''e''"
  "lowerByte (CHR ''M'') = CHR ''m''" "lowerByte (CHR ''s'') = CHR ''s''"
  "lowerByte (CHR ''y'') = CHR ''y''" "lowerByte (CHR ''t'') = CHR ''t''"
  "lowerByte (CHR ''e'') = CHR ''e''" "lowerByte (CHR ''m'') = CHR ''m''"
  by code_simp+

lemma ToLower_any_capitalization:
  assumes "c1 = CHR ''s'' \<or> c1 = CHR ''S''" "c2 = CHR ''y'' \<or> c2 = CHR ''Y''"
    "c3 = CHR ''s'' \<or> c3 = CHR ''S''" "c4 = CHR ''t'' \<or> c4 = CHR ''T''"
    "c5 = CHR ''e'' \<or> c5 = CHR ''E''" "c6 = CHR ''m'' \<or> c6 = CHR ''M''"
  shows "ToLower [c1, c2, c3, c4, c5, c6] = ''system''"
  using assms by (auto simp: ToLower_def lowerByte_system)




section \<open>Commands\<close>

lemma of_char_lowerByte:
  "(of_char (lowerByte c) :: nat) =
     (if 65 \<le> (of_char c :: nat) \<and> (of_char c :: nat) \<le> 90 then of_char c + 32 else of_char c)"
  by (simp add: lowerByte_def less_eq_char_def)

lemma lowerByte_idem [simp]: "lowerByte (lowerByte c) = lowerByte c"
  by (rule of_char_eqI [where 'a = nat]) (simp add: of_char_lowerByte)

lemma lowerByte_eq_space [simp]: "lowerByte c = CHR '' '' \<longleftrightarrow> c = CHR '' ''"
proof -
  have "lowerByte c = CHR '' '' \<longleftrightarrow> (of_char (lowerByte c) :: nat) = of_char (CHR '' '')"
    by (simp only: of_char_eq_iff)
  also have "\<dots> \<longleftrightarrow> (of_char c :: nat) = of_char (CHR '' '')"
    by (auto simp: of_char_lowerByte)
  finally show ?thesis by (simp only: of_char_eq_iff)
qed

lemma ToLower_idem [simp]: "ToLower (ToLower s) = ToLower s"
  by (simp add: ToLower_def)

lemma space_eq_lowerByte [simp]: "CHR '' '' = lowerByte c \<longleftrightarrow> c = CHR '' ''"
  using lowerByte_eq_space [of c] by (simp only: eq_commute)

lemma space_in_ToLower [simp]: "CHR '' '' \<in> set (ToLower s) \<longleftrightarrow> CHR '' '' \<in> set s"
  by (induction s) (auto simp: ToLower_def)

lemma SplitN2_word: "CHR '' '' \<notin> set w \<Longrightarrow> SplitN2 w = [w]"
  by (simp add: SplitN2_def)

lemma SplitN2_word_arg: "CHR '' '' \<notin> set w \<Longrightarrow> SplitN2 (w @ CHR '' '' # r) = [w, r]"
proof -
  assume w: "CHR '' '' \<notin> set w"
  then have "takeWhile (\<lambda>c. c \<noteq> CHR '' '') (w @ CHR '' '' # r) = w"
    and "dropWhile (\<lambda>c. c \<noteq> CHR '' '') (w @ CHR '' '' # r) = CHR '' '' # r"
    by (induction w) auto
  then show ?thesis by (simp add: SplitN2_def)
qed

lemma handleCommand_word:
  "CHR '' '' \<notin> set w \<Longrightarrow> handleCommand E now p w W = handleCommand E now p (ToLower w) W"
  by (simp add: handleCommand_def SplitN2_word Let_def)

lemma handleCommand_word_arg:
  "CHR '' '' \<notin> set w \<Longrightarrow>
   handleCommand E now p (w @ CHR '' '' # r) W = handleCommand E now p (ToLower w @ CHR '' '' # r) W"
  by (simp add: handleCommand_def SplitN2_word_arg Let_def)


lemma formatted_action [simp]:
  "\<not> IsSystem msg \<Longrightarrow> IsAction msg \<Longrightarrow>
   formatted E nick msg = FormatActionMessage E (From msg) (Content msg) @ CRLF"
  by (simp add: formatted_def)

lemma handleCommand_me:
  assumes "CHR '' '' \<notin> set w" and "ToLower w = ''/me''"
  shows "handleCommand E now p w W =
           (Some InvalidMeUsage, sendSystemMessage E now p ''Usage: /me <action>'' W)"
    and "handleCommand E now p (w @ CHR '' '' # action) W =
           (if TrimSpace action = []
            then (Some InvalidMeUsage, sendSystemMessage E now p ''Usage: /me <action>'' W)
            else (None,
                  broadcastMessage E
                    \<lparr>From = Nickname (heap W p), Content = action, Timestamp = now,
                     IsSystem = False, IsAction = True\<rparr> W))"
  using assms by (simp_all add: handleCommand_def SplitN2_word SplitN2_word_arg Let_def)




lemma ToLower_commands:
  "ToLower ''/WHO'' = ''/who''" "ToLower ''/HELP'' = ''/help''" "ToLower ''/Me'' = ''/me''"
  "ToLower ''/QUIT'' = ''/quit''" "ToLower ''/quitnow'' = ''/quitnow''"
  "ToLower ''/who'' = ''/who''" "ToLower ''/help'' = ''/help''" "ToLower ''/quit'' = ''/quit''"
  by code_simp+

lemma handleCommand_lower:
  "handleCommand E now p ''/who'' W = showUserList E p W"
  "handleCommand E now p ''/help'' W = showHelp E p W"
  "handleCommand E now p ''/quit'' W =
     (if conn_closed (heap W p)
      then (Some ErrorClosingConnection, sendSystemMessage E now p ''Goodbye!'' W)
      else (None, update_client p (\<lambda>c. c\<lparr>conn_closed := True\<rparr>)
                    (sendSystemMessage E now p ''Goodbye!'' W)))"
  "handleCommand E now p ''/quitnow'' W =
     (Some (UnknownCommand ''/quitnow''), sendSystemMessage E now p ''Unknown command: /quitnow'' W)"
  by (simp_all add: handleCommand_def SplitN2_def ToLower_commands Let_def)

lemma QUIT_line:
  "TrimSpace ''/QUIT'' = ''/QUIT''" "reaches_rate_limit ''/QUIT''" "HasPrefix ''/QUIT'' ''/''"
  "HasPrefix ''/quitnow'' ''/quit''"
  by (simp_all add: reaches_rate_limit_def TrimSpace_def isSpaceByte_def HasPrefix_def
        MaxMessageLength_def)

lemma handleLine_command_accepted:
  assumes "reaches_rate_limit line" and "HasPrefix (TrimSpace line) ''/''"
    and "fst (checkRateLimit now p W) = None"
  shows "handleLine E now p line W =
     (case handleCommand E now p (TrimSpace line) (snd (checkRateLimit now p W)) of
        (Some err, W2) \<Rightarrow> sendSystemMessage E now p (''Error: '' @ ErrorString E err) W2
      | (None, W2) \<Rightarrow> W2)"
proof -
  obtain V where "checkRateLimit now p W = (None, V)"
    using assms(3) by (cases "checkRateLimit now p W") auto
  with assms(1,2) show ?thesis
    by (simp add: handleLine_def Let_def reaches_rate_limit_def validateMessageLength_def)
qed

lemma conn_closed_checkRateLimit [simp]:
  "conn_closed (heap (snd (checkRateLimit now p W)) q) = conn_closed (heap W q)"
  by (simp add: checkRateLimit_world heap_update_client)

text \<open>
  Claim C10. \<open>handleCommand\<close> lowers the command word and nothing else, so
  \<open>/WHO\<close>, \<open>/HELP\<close>, \<open>/Me\<close> and \<open>/QUIT\<close> act as their lower-case commands.
  The exemption from the rate limit compares the trimmed line with the prefix
  \<open>/quit\<close> as it is: \<open>/QUIT\<close> goes through \<open>checkRateLimit\<close>, and when that rejects
  the line the client only gets the error and its connection stays as it was; every line
  with the prefix \<open>/quit\<close>, such as \<open>/quitnow\<close> (an unknown command), skips the check
  and leaves the timestamps alone.
\<close>

theorem command_word_case:
  "(CHR '' '' \<notin> set w \<longrightarrow>
      handleCommand E now p w W = handleCommand E now p (ToLower w) W \<and>
      handleCommand E now p (w @ CHR '' '' # arg) W =
        handleCommand E now p (ToLower w @ CHR '' '' # arg) W) \<and>
   handleCommand E now p ''/WHO'' W = showUserList E p W \<and>
   handleCommand E now p ''/HELP'' W = showHelp E p W \<and>
   handleCommand E now p (''/Me'' @ CHR '' '' # arg) W =
     handleCommand E now p (''/me'' @ CHR '' '' # arg) W \<and>
   handleCommand E now p ''/QUIT'' W =
     (if conn_closed (heap W p)
      then (Some ErrorClosingConnection, sendSystemMessage E now p ''Goodbye!'' W)
      else (None, update_client p (\<lambda>c. c\<lparr>conn_closed := True\<rparr>)
                    (sendSystemMessage E now p ''Goodbye!'' W))) \<and>
   \<not> HasPrefix (TrimSpace ''/QUIT'') ''/quit'' \<and>
   (fst (checkRateLimit now p W) = Some err \<longrightarrow>
      handleLine E now p ''/QUIT'' W =
        sendSystemMessage E now p (''Error: '' @ ErrorString E err) (snd (checkRateLimit now p W)) \<and>
      conn_closed (heap (handleLine E now p ''/QUIT'' W) p) = conn_closed (heap W p)) \<and>
   (fst (checkRateLimit now p W) = None \<longrightarrow>
      handleLine E now p ''/QUIT'' W =
        (case handleCommand E now p ''/QUIT'' (snd (checkRateLimit now p W)) of
           (Some err, W2) \<Rightarrow> sendSystemMessage E now p (''Error: '' @ ErrorString E err) W2
         | (None, W2) \<Rightarrow> W2)) \<and>
   (HasPrefix (TrimSpace line) ''/quit'' \<longrightarrow>
      messageTimestamps (heap (handleLine E now p line W) q) = messageTimestamps (heap W q) \<and>
      (length (TrimSpace line) \<le> 1000 \<longrightarrow>
         handleLine E now p line W =
           (case handleCommand E now p (TrimSpace line) W of
              (Some err, W2) \<Rightarrow> sendSystemMessage E now p (''Error: '' @ ErrorString E err) W2
            | (None, W2) \<Rightarrow> W2))) \<and>
   HasPrefix ''/quitnow'' ''/quit'' \<and>
   handleCommand E now p ''/quitnow'' W =
     (Some (UnknownCommand ''/quitnow''), sendSystemMessage E now p ''Unknown command: /quitnow'' W)"
proof -
  have sp: "CHR '' '' \<notin> set ''/WHO''" "CHR '' '' \<notin> set ''/HELP''" "CHR '' '' \<notin> set ''/Me''"
    "CHR '' '' \<notin> set ''/QUIT''"
    by simp_all
  have 1: "handleCommand E now p ''/WHO'' W = showUserList E p W"
    using handleCommand_word [OF sp(1)] by (simp add: ToLower_commands handleCommand_lower)
  have 2: "handleCommand E now p ''/HELP'' W = showHelp E p W"
    using handleCommand_word [OF sp(2)] by (simp add: ToLower_commands handleCommand_lower)
  have 3: "handleCommand E now p (''/Me'' @ CHR '' '' # arg) W =
     handleCommand E now p (''/me'' @ CHR '' '' # arg) W"
    using handleCommand_word_arg [OF sp(3)] by (simp add: ToLower_commands)
  have 4: "handleCommand E now p ''/QUIT'' V = handleCommand E now p ''/quit'' V" for V
    using handleCommand_word [OF sp(4)] by (simp add: ToLower_commands)
  have 5: "\<not> HasPrefix (TrimSpace ''/QUIT'') ''/quit''"
    by (simp add: QUIT_line HasPrefix_def)
  have 6: "handleLine E now p ''/QUIT'' W =
        sendSystemMessage E now p (''Error: '' @ ErrorString E err) (snd (checkRateLimit now p W)) \<and>
      conn_closed (heap (handleLine E now p ''/QUIT'' W) p) = conn_closed (heap W p)"
    if "fst (checkRateLimit now p W) = Some err"
    using handleLine_rate_limited [OF QUIT_line(2) that] by simp
  have 7: "handleLine E now p ''/QUIT'' W =
        (case handleCommand E now p ''/QUIT'' (snd (checkRateLimit now p W)) of
           (Some err, W2) \<Rightarrow> sendSystemMessage E now p (''Error: '' @ ErrorString E err) W2
         | (None, W2) \<Rightarrow> W2)"
    if "fst (checkRateLimit now p W) = None"
    using handleLine_command_accepted [OF QUIT_line(2) _ that, of E] by (simp add: QUIT_line)
  have 8: "messageTimestamps (heap (handleLine E now p line W) q) = messageTimestamps (heap W q)"
    if "HasPrefix (TrimSpace line) ''/quit''"
    using that by (simp add: handleLine_timestamps)
  show ?thesis
    using 1 2 3 4 [of W] 5 6 7 8 handleCommand_word [of w E now p W]
      handleCommand_word_arg [of w E now p arg W] handleLine_quit_prefix [of line E now p W]
      QUIT_line(4) handleCommand_lower(3,4) [of E now p W]
    by simp
qed


theorem command_word_case_witness:
  "CHR '' '' \<notin> set ''/WhO'' \<and>
   handleCommand plain 600 0 ''/WhO'' burst = handleCommand plain 600 0 (ToLower ''/WhO'') burst \<and>
   ToLower ''/WhO'' = ''/who'' \<and>
   fst (checkRateLimit 600 0 burst) = Some (RateLimitExceeded 4999999500) \<and>
   handleLine plain 600 0 ''/QUIT'' burst =
     sendSystemMessage plain 600 0 (''Error: '' @ ErrorString plain (RateLimitExceeded 4999999500))
       (snd (checkRateLimit 600 0 burst)) \<and>
   conn_closed (heap (handleLine plain 600 0 ''/QUIT'' burst) 0) = conn_closed (heap burst 0) \<and>
   fst (checkRateLimit 600 0 (lobby 2 [(''Alice'', 0), (''Bob'', 1)])) = None \<and>
   handleLine plain 600 0 ''/QUIT'' (lobby 2 [(''Alice'', 0), (''Bob'', 1)]) =
     (case handleCommand plain 600 0 ''/QUIT''
             (snd (checkRateLimit 600 0 (lobby 2 [(''Alice'', 0), (''Bob'', 1)]))) of
        (Some err, W2) \<Rightarrow> sendSystemMessage plain 600 0 (''Error: '' @ ErrorString plain err) W2
      | (None, W2) \<Rightarrow> W2) \<and>
   HasPrefix (TrimSpace ''/quitnow'') ''/quit'' \<and> length (TrimSpace ''/quitnow'') \<le> 1000 \<and>
   messageTimestamps (heap (handleLine plain 600 0 ''/quitnow'' burst) 0) =
     messageTimestamps (heap burst 0) \<and>
   handleLine plain 600 0 ''/quitnow'' burst =
     (case handleCommand plain 600 0 (TrimSpace ''/quitnow'') burst of
        (Some err, W2) \<Rightarrow> sendSystemMessage plain 600 0 (''Error: '' @ ErrorString plain err) W2
      | (None, W2) \<Rightarrow> W2)"
proof -
  let ?L = "lobby 2 [(''Alice'', 0), (''Bob'', 1)]"
  have a: "CHR '' '' \<notin> set ''/WhO''" by simp
  have b: "ToLower ''/WhO'' = ''/who''" by code_simp
  have c: "fst (checkRateLimit 600 0 burst) = Some (RateLimitExceeded 4999999500)"
    by (simp add: checkRateLimit_result burst_timestamps RateLimitWindow_def Let_def)
  have d: "fst (checkRateLimit 600 0 ?L) = None"
    by (simp add: checkRateLimit_result Let_def lobby_def guests_def session_def)
  have e: "HasPrefix (TrimSpace ''/quitnow'') ''/quit'' \<and> length (TrimSpace ''/quitnow'') \<le> 1000"
    by (simp add: TrimSpace_def isSpaceByte_def HasPrefix_def)
  note t = command_word_case [where E = plain and now = 600 and p = 0]
  have 1: "handleCommand plain 600 0 ''/WhO'' burst = handleCommand plain 600 0 (ToLower ''/WhO'') burst"
    using t [where w = "''/WhO''" and W = burst] a by blast
  have 2: "handleLine plain 600 0 ''/QUIT'' burst =
     sendSystemMessage plain 600 0 (''Error: '' @ ErrorString plain (RateLimitExceeded 4999999500))
       (snd (checkRateLimit 600 0 burst)) \<and>
     conn_closed (heap (handleLine plain 600 0 ''/QUIT'' burst) 0) = conn_closed (heap burst 0)"
    using t [where W = burst and err = "RateLimitExceeded 4999999500"] c by blast
  have 3: "handleLine plain 600 0 ''/QUIT'' ?L =
     (case handleCommand plain 600 0 ''/QUIT'' (snd (checkRateLimit 600 0 ?L)) of
        (Some err, W2) \<Rightarrow> sendSystemMessage plain 600 0 (''Error: '' @ ErrorString plain err) W2
      | (None, W2) \<Rightarrow> W2)"
    using t [where W = ?L] d by blast
  have 4: "messageTimestamps (heap (handleLine plain 600 0 ''/quitnow'' burst) 0) =
     messageTimestamps (heap burst 0) \<and>
     handleLine plain 600 0 ''/quitnow'' burst =
     (case handleCommand plain 600 0 (TrimSpace ''/quitnow'') burst of
        (Some err, W2) \<Rightarrow> sendSystemMessage plain 600 0 (''Error: '' @ ErrorString plain err) W2
      | (None, W2) \<Rightarrow> W2)"
    using t [where W = burst and line = "''/quitnow''" and q = 0] e by blast
  from a b c d e 1 2 3 4 show ?thesis by blast
qed

end
